theory Spec2Isabelle
  imports Main "HOL-Library.Sublist"
begin

section \<open>Data model\<close>

text \<open>
  The application of \<^verbatim>\<open>src/src/App.tsx\<close> keeps six pieces of React state: the
  customer list, the filtered view, a loading flag, the search query, the record being
  edited (or \<^verbatim>\<open>null\<close>) and the four form fields.

  Strings are \<^typ>\<open>string\<close>; a character stands for a code unit from 0 to 255. The
  field \<^verbatim>\<open>phone\<close> is the one optional column of a customer row, so at run time it
  holds a string or
  \<^verbatim>\<open>null\<close>: it is a \<^typ>\<open>string option\<close>, \<^term>\<open>None\<close> standing for \<^verbatim>\<open>null\<close>.
  \<^verbatim>\<open>handleEdit\<close> copies that value into the form, so the form's phone has the same type.
\<close>

text \<open>
  The form object \<^verbatim>\<open>{ name, shirt, pants, phone }\<close> of \<^verbatim>\<open>useState\<close> (lines 13-18).
\<close>

record form_data =
  name :: string
  shirt :: string
  pants :: string
  phone :: "string option"

text \<open>
  Modelled from the spec: the declaration of \<^verbatim>\<open>Customer\<close> (\<^verbatim>\<open>./types/customer\<close>) is
  not among the sources. Section 3 of the specification lists the fields \<^verbatim>\<open>id\<close>,
  \<^verbatim>\<open>name\<close>, \<^verbatim>\<open>shirt\<close>, \<^verbatim>\<open>pants\<close>, \<^verbatim>\<open>phone\<close> (optional) and \<^verbatim>\<open>created_at\<close>. A customer
  has the four form fields and two more, so the record extends \<^typ>\<open>form_data\<close>; the
  field \<^verbatim>\<open>id\<close> is called \<open>customer_id\<close> here.
\<close>

record customer = form_data +
  customer_id :: string
  created_at :: string

record app_state =
  customers :: "customer list"
  filteredCustomers :: "customer list"
  loading :: bool
  searchQuery :: string
  editingCustomer :: "customer option"
  formData :: form_data

definition emptyForm :: form_data where
  "emptyForm = \<lparr>name = '''', shirt = '''', pants = '''', phone = Some ''''\<rparr>"

definition initialState :: app_state where
  "initialState =
     \<lparr>customers = [], filteredCustomers = [], loading = True, searchQuery = '''',
      editingCustomer = None, formData = emptyForm\<rparr>"

section \<open>The filter\<close>

text \<open>
  \<^verbatim>\<open>String.prototype.toLowerCase\<close> belongs to the language, not to the program. The
  filter below therefore takes the case folding as its first argument \<open>lower\<close>, and
  what is proved for every \<open>lower\<close> holds for the folding of the runtime.

  \<open>toLowerCase\<close> is that folding on the strings of this model, whose characters are
  the code units 0 to 255 (Basic Latin and Latin-1 Supplement). There it works unit by
  unit: the capital letters, codes 65 to 90, 192 to 214 and 216 to 222, move up by 32;
  every other unit stays, the multiplication sign 215, the sharp s 223, the micro sign
  181 and the y with diaeresis 255 among them.
\<close>

definition lowerChar :: "char \<Rightarrow> char" where
  "lowerChar c =
     (let n = (of_char c :: nat)
      in if (65 \<le> n \<and> n \<le> 90) \<or> (192 \<le> n \<and> n \<le> 214) \<or> (216 \<le> n \<and> n \<le> 222)
         then char_of (n + 32)
         else c)"

definition toLowerCase :: "string \<Rightarrow> string" where
  "toLowerCase s = map lowerChar s"

text \<open>
  \<^verbatim>\<open>s.includes(q)\<close>: is there a position of \<open>s\<close> at which \<open>q\<close> starts? The search
  runs from the left; the empty \<open>q\<close> is found in every string.
\<close>

fun str_includes :: "string \<Rightarrow> string \<Rightarrow> bool" where
  "str_includes [] q = (q = [])"
| "str_includes (c # s) q = (prefix q (c # s) \<or> str_includes s q)"

datatype js_error = TypeError

text \<open>
  The predicate of lines 26-27. \<^verbatim>\<open>||\<close> evaluates its right operand only when the
  left one is false; there \<^verbatim>\<open>customer.phone.includes\<close> raises a \<^verbatim>\<open>TypeError\<close> when
  \<^verbatim>\<open>phone\<close> is \<^verbatim>\<open>null\<close>.
\<close>

definition nameMatches :: "(string \<Rightarrow> string) \<Rightarrow> string \<Rightarrow> customer \<Rightarrow> bool" where
  "nameMatches lower q c = str_includes (lower (name c)) (lower q)"

definition matches :: "(string \<Rightarrow> string) \<Rightarrow> string \<Rightarrow> customer \<Rightarrow> js_error + bool" where
  "matches lower q c =
     (if nameMatches lower q c then Inr True
      else case phone c of
             None \<Rightarrow> Inl TypeError
           | Some p \<Rightarrow> Inr (str_includes p q))"

text \<open>
  \<^verbatim>\<open>customers.filter(...)\<close> (line 25): the predicate is called on every element from
  left to right, the elements it accepts are kept in order, and an exception of the
  predicate ends the whole call.
\<close>

fun filterCustomers ::
  "(string \<Rightarrow> string) \<Rightarrow> string \<Rightarrow> customer list \<Rightarrow> js_error + customer list" where
  "filterCustomers lower q [] = Inr []"
| "filterCustomers lower q (c # cs) =
     (case matches lower q c of
        Inl e \<Rightarrow> Inl e
      | Inr keep \<Rightarrow>
          (case filterCustomers lower q cs of
             Inl e \<Rightarrow> Inl e
           | Inr rest \<Rightarrow> Inr (if keep then c # rest else rest)))"

text \<open>
  The effect of lines 24-30, which React runs after a render in which \<^verbatim>\<open>searchQuery\<close>
  or \<^verbatim>\<open>customers\<close> has changed: it stores the filtered list.
\<close>

definition filterEffect :: "(string \<Rightarrow> string) \<Rightarrow> app_state \<Rightarrow> js_error + app_state" where
  "filterEffect lower s =
     (case filterCustomers lower (searchQuery s) (customers s) of
        Inl e \<Rightarrow> Inl e
      | Inr filtered \<Rightarrow> Inr (s\<lparr>filteredCustomers := filtered\<rparr>))"

text \<open>The search box's \<^verbatim>\<open>onChange\<close> (line 126).\<close>

definition setSearchQuery :: "string \<Rightarrow> app_state \<Rightarrow> app_state" where
  "setSearchQuery q s = s\<lparr>searchQuery := q\<rparr>"

section \<open>The store and the effects of a handler\<close>

text \<open>
  The remote store is outside the program. What it answers is an argument of the
  handler that awaits it: \<^verbatim>\<open>{ error }\<close> for a mutation and \<^verbatim>\<open>{ data, error }\<close> for
  the select, where \<^verbatim>\<open>error\<close> is \<^verbatim>\<open>null\<close> on success and \<^verbatim>\<open>data\<close> may be
  \<^verbatim>\<open>null\<close> too.
\<close>

datatype store_error = StoreError string

record mutate_response =
  error :: "store_error option"

record select_response = mutate_response +
  data :: "customer list option"

text \<open>
  What a handler does to the outside, in the order in which it does it: the four store
  requests, the two kinds of toast, the console log of the \<^verbatim>\<open>catch\<close> blocks and the
  blocking \<^verbatim>\<open>confirm\<close> prompt.
\<close>

datatype effect =
    StoreSelect
  | StoreUpdate form_data string
  | StoreInsert "form_data list"
  | StoreDelete string
  | ToastSuccess string
  | ToastError string
  | ConsoleError store_error
  | Confirm string

fun isStoreCall :: "effect \<Rightarrow> bool" where
  "isStoreCall StoreSelect = True"
| "isStoreCall (StoreUpdate f i) = True"
| "isStoreCall (StoreInsert fs) = True"
| "isStoreCall (StoreDelete i) = True"
| "isStoreCall e = False"

fun isMutation :: "effect \<Rightarrow> bool" where
  "isMutation (StoreUpdate f i) = True"
| "isMutation (StoreInsert fs) = True"
| "isMutation (StoreDelete i) = True"
| "isMutation e = False"

fun isToast :: "effect \<Rightarrow> bool" where
  "isToast (ToastSuccess m) = True"
| "isToast (ToastError m) = True"
| "isToast e = False"

section \<open>The handlers\<close>

text \<open>
  \<^verbatim>\<open>fetchCustomers\<close> (lines 32-48). An error of the select goes to the \<^verbatim>\<open>catch\<close>
  block; otherwise both lists are set to \<^verbatim>\<open>data || []\<close>. The \<^verbatim>\<open>finally\<close> block clears
  the loading flag on both paths.
\<close>

definition fetchCustomers :: "select_response \<Rightarrow> app_state \<Rightarrow> app_state \<times> effect list" where
  "fetchCustomers resp s =
     (case error resp of
        Some e \<Rightarrow>
          (s\<lparr>loading := False\<rparr>,
           [StoreSelect, ToastError ''Error fetching customers'', ConsoleError e])
      | None \<Rightarrow>
          (let d = (case data resp of None \<Rightarrow> [] | Some rows \<Rightarrow> rows)
           in (s\<lparr>customers := d, filteredCustomers := d, loading := False\<rparr>, [StoreSelect])))"

text \<open>The effect of lines 20-22: the list is fetched once when the component mounts.\<close>

definition mount :: "select_response \<Rightarrow> app_state \<times> effect list" where
  "mount resp = fetchCustomers resp initialState"

text \<open>
  \<^verbatim>\<open>handleSubmit\<close> (lines 50-82). \<open>submitFailed\<close> is the \<^verbatim>\<open>catch\<close> block followed by
  \<^verbatim>\<open>finally\<close>; its message is chosen by the \<^verbatim>\<open>editingCustomer\<close> of the render that
  created the handler. \<open>submitSucceeded\<close> is lines 72-74 followed by \<^verbatim>\<open>finally\<close>;
  \<^verbatim>\<open>fetchCustomers\<close> handles its own failure, so nothing is thrown there.
\<close>

definition submitFailed :: "app_state \<Rightarrow> effect list \<Rightarrow> store_error \<Rightarrow> app_state \<times> effect list" where
  "submitFailed s sofar e =
     (s\<lparr>loading := False\<rparr>,
      sofar @
      [ToastError (case editingCustomer s of
                     Some r \<Rightarrow> ''Error updating customer''
                   | None \<Rightarrow> ''Error adding customer''),
       ConsoleError e])"

definition submitSucceeded :: "select_response \<Rightarrow> app_state \<Rightarrow> effect list \<Rightarrow> app_state \<times> effect list" where
  "submitSucceeded fresp s sofar =
     (let s1 = s\<lparr>formData := emptyForm\<rparr>;
          s2 = s1\<lparr>editingCustomer := None\<rparr>;
          (s3, fx) = fetchCustomers fresp s2
      in (s3\<lparr>loading := False\<rparr>, sofar @ fx))"

definition handleSubmit :: "mutate_response \<Rightarrow> select_response \<Rightarrow> app_state \<Rightarrow> app_state \<times> effect list" where
  "handleSubmit mresp fresp s =
     (let s1 = s\<lparr>loading := True\<rparr>
      in case editingCustomer s of
           Some r \<Rightarrow>
             (let call = StoreUpdate (formData s) (customer_id r)
              in case error mresp of
                   Some e \<Rightarrow> submitFailed s1 [call] e
                 | None \<Rightarrow>
                     submitSucceeded fresp s1
                       [call, ToastSuccess ''Customer updated successfully''])
         | None \<Rightarrow>
             (let call = StoreInsert [formData s]
              in case error mresp of
                   Some e \<Rightarrow> submitFailed s1 [call] e
                 | None \<Rightarrow>
                     submitSucceeded fresp s1
                       [call, ToastSuccess ''Customer added successfully'']))"

text \<open>\<^verbatim>\<open>handleEdit\<close> (lines 84-92).\<close>

definition handleEdit :: "customer \<Rightarrow> app_state \<Rightarrow> app_state" where
  "handleEdit c s =
     s\<lparr>editingCustomer := Some c,
       formData := \<lparr>name = name c, shirt = shirt c, pants = pants c, phone = phone c\<rparr>\<rparr>"

text \<open>
  \<^verbatim>\<open>handleDelete\<close> (lines 94-113). The answer to the \<^verbatim>\<open>confirm\<close> prompt is the
  argument \<open>confirmed\<close>; a refusal returns at once.
\<close>

definition handleDelete :: "bool \<Rightarrow> mutate_response \<Rightarrow> select_response \<Rightarrow> string \<Rightarrow> app_state \<Rightarrow> app_state \<times> effect list" where
  "handleDelete confirmed mresp fresp i s =
     (let ask = Confirm ''Are you sure you want to delete this customer?''
      in if \<not> confirmed then (s, [ask])
         else
           (let s1 = s\<lparr>loading := True\<rparr>
            in case error mresp of
                 Some e \<Rightarrow>
                   (s1\<lparr>loading := False\<rparr>,
                    [ask, StoreDelete i, ToastError ''Error deleting customer'', ConsoleError e])
               | None \<Rightarrow>
                   (let (s2, fx) = fetchCustomers fresp s1
                    in (s2\<lparr>loading := False\<rparr>,
                        [ask, StoreDelete i, ToastSuccess ''Customer deleted successfully'']
                        @ fx))))"

section \<open>The filter as the specification words it\<close>

text \<open>
  A record is retained when the case-folded query is a substring of the case-folded
  name, or the query as typed is a substring of the phone. ``Substring'' is
  \<^const>\<open>sublist\<close>: \<open>sublist q s\<close> says that \<open>s\<close> is \<open>ps @ q @ ss\<close> for some \<open>ps\<close>
  and \<open>ss\<close>. A record without a phone has no phone substring. The folding is the
  argument \<open>lower\<close>, as in the filter.
\<close>

definition retained :: "(string \<Rightarrow> string) \<Rightarrow> string \<Rightarrow> customer \<Rightarrow> bool" where
  "retained lower q c =
     (sublist (lower q) (lower (name c)) \<or>
      (case phone c of None \<Rightarrow> False | Some p \<Rightarrow> sublist q p))"

section \<open>Example data\<close>

definition alice :: customer where
  "alice =
     \<lparr>name = ''Alice'', shirt = ''Chest 40'', pants = ''Waist 32'', phone = Some ''555-1111'',
      customer_id = ''id-1'', created_at = ''2024-01-02''\<rparr>"

definition bob :: customer where
  "bob =
     \<lparr>name = ''Bob'', shirt = ''Chest 42'', pants = ''Waist 34'', phone = Some ''555-2222'',
      customer_id = ''id-2'', created_at = ''2024-01-01''\<rparr>"

text \<open>A row whose optional phone column is empty in the store.\<close>

definition carol :: customer where
  "carol =
     \<lparr>name = ''Carol'', shirt = ''Chest 38'', pants = ''Waist 30'', phone = None,
      customer_id = ''id-3'', created_at = ''2023-12-31''\<rparr>"


definition typedForm :: form_data where
  "typedForm = \<lparr>name = ''Dan'', shirt = ''Chest 44'', pants = ''Waist 36'', phone = Some ''''\<rparr>"

definition loadedState :: app_state where
  "loadedState =
     \<lparr>customers = [alice, bob], filteredCustomers = [alice, bob], loading = False,
      searchQuery = '''', editingCustomer = None, formData = typedForm\<rparr>"

definition ok :: mutate_response where
  "ok = \<lparr>error = None\<rparr>"

definition failed :: mutate_response where
  "failed = \<lparr>error = Some (StoreError ''network'')\<rparr>"

definition selectOk :: "customer list \<Rightarrow> select_response" where
  "selectOk rows = \<lparr>error = None, data = Some rows\<rparr>"

definition selectFailed :: select_response where
  "selectFailed = \<lparr>error = Some (StoreError ''network''), data = None\<rparr>"

section \<open>Properties of the filter\<close>

lemma includes_Nil [simp]: "str_includes s []"
  by (cases s) simp_all

lemma includes_iff_sublist: "str_includes s q \<longleftrightarrow> sublist q s"
  by (induction s) (simp_all add: sublist_Cons_right)

lemma toLowerCase_Nil [simp]: "toLowerCase [] = []"
  by (simp add: toLowerCase_def)

lemma nameMatches_empty: "lower [] = [] \<Longrightarrow> nameMatches lower [] c"
  by (simp add: nameMatches_def)

lemma filterCustomers_empty_query: "lower [] = [] \<Longrightarrow> filterCustomers lower [] L = Inr L"
  by (induction L) (simp_all add: matches_def nameMatches_empty)

text \<open>
  C3: filtering with the empty query is the identity. The filter returns the list it
  was given, same records in the same order, whatever the records hold; the effect then
  shows the whole customer list.
\<close>

theorem C3_empty_query_identity:
  "filterCustomers toLowerCase '''' L = Inr L \<and>
   filterEffect toLowerCase (setSearchQuery '''' s) =
     Inr (s\<lparr>searchQuery := '''', filteredCustomers := customers s\<rparr>)"
  by (simp add: filterCustomers_empty_query filterEffect_def setSearchQuery_def)

lemma filterCustomers_returns:
  "\<forall>c\<in>set L. nameMatches lower q c \<or> phone c \<noteq> None \<Longrightarrow>
   filterCustomers lower q L = Inr (filter (retained lower q) L)"
  by (induction L)
    (auto simp: matches_def nameMatches_def retained_def includes_iff_sublist)

lemma filterCustomers_null_phone:
  "c \<in> set L \<Longrightarrow> \<not> nameMatches lower q c \<Longrightarrow> phone c = None \<Longrightarrow>
   filterCustomers lower q L = Inl TypeError"
  by (induction L)
    (auto simp: matches_def split: sum.splits option.splits intro: js_error.exhaust)




text \<open>
  C10: when every record's phone is a string (possibly empty), the filter returns a list
  and raises nothing. The phone test runs for every record whose name does not match, so
  one such record with a \<^verbatim>\<open>null\<close> phone makes the whole filter raise a \<^verbatim>\<open>TypeError\<close>.
  Both hold for every case folding.
\<close>

theorem C10_filter_total_on_string_phones:
  "((\<forall>c\<in>set L. phone c \<noteq> None) \<longrightarrow> (\<exists>r. filterCustomers lower q L = Inr r)) \<and>
   (\<forall>c\<in>set L. \<not> nameMatches lower q c \<and> phone c = None \<longrightarrow>
      filterCustomers lower q L = Inl TypeError)"
  by (auto simp: filterCustomers_returns dest: filterCustomers_null_phone)

theorem C10_filter_total_on_string_phones_witness:
  "phone alice = Some ''555-1111'' \<and> phone bob = Some ''555-2222'' \<and>
   (\<exists>r. filterCustomers toLowerCase ''ali'' [alice, bob] = Inr r) \<and>
   carol \<in> set [alice, bob, carol] \<and> \<not> nameMatches toLowerCase ''ali'' carol \<and>
   phone carol = None \<and>
   filterCustomers toLowerCase ''ali'' [alice, bob, carol] = Inl TypeError"
proof -
  have a: "phone alice = Some ''555-1111''" and b: "phone bob = Some ''555-2222''"
    by (simp_all add: alice_def bob_def)
  have phones: "\<forall>c\<in>set [alice, bob]. phone c \<noteq> None"
    by (simp add: a b)
  have total: "\<exists>r. filterCustomers toLowerCase ''ali'' [alice, bob] = Inr r"
    using C10_filter_total_on_string_phones [of "[alice, bob]" toLowerCase "''ali''"] phones
    by blast
  have member: "carol \<in> set [alice, bob, carol]"
    by simp
  have no_name: "\<not> nameMatches toLowerCase ''ali'' carol"
    by code_simp
  have no_phone: "phone carol = None"
    by (simp add: carol_def)
  have raises: "filterCustomers toLowerCase ''ali'' [alice, bob, carol] = Inl TypeError"
    using C10_filter_total_on_string_phones [of "[alice, bob, carol]" toLowerCase "''ali''"]
      member no_name no_phone by blast
  show ?thesis
    by (intro conjI) (rule a b total member no_name no_phone raises)+
qed

section \<open>Properties of the handlers\<close>

lemma fetchCustomers_failed:
  "error fresp = Some e \<Longrightarrow>
   fetchCustomers fresp s =
     (s\<lparr>loading := False\<rparr>,
      [StoreSelect, ToastError ''Error fetching customers'', ConsoleError e])"
  by (simp add: fetchCustomers_def)

lemma fetchCustomers_frame:
  "formData (fst (fetchCustomers fresp s)) = formData s \<and>
   editingCustomer (fst (fetchCustomers fresp s)) = editingCustomer s \<and>
   searchQuery (fst (fetchCustomers fresp s)) = searchQuery s"
  by (simp add: fetchCustomers_def Let_def split: option.splits)

lemma fetchCustomers_one_select:
  "count_list (snd (fetchCustomers fresp s)) StoreSelect = 1"
  by (simp add: fetchCustomers_def Let_def split: option.splits)

lemma fetchCustomers_no_mutation:
  "filter isMutation (snd (fetchCustomers fresp s)) = []"
  by (simp add: fetchCustomers_def Let_def split: option.splits)

lemma submitSucceeded_state:
  "formData (fst (submitSucceeded fresp s sofar)) = emptyForm \<and>
   editingCustomer (fst (submitSucceeded fresp s sofar)) = None"
  using fetchCustomers_frame [of fresp "s\<lparr>formData := emptyForm, editingCustomer := None\<rparr>"]
  by (simp add: submitSucceeded_def Let_def split_beta)

lemma submitSucceeded_effects:
  "snd (submitSucceeded fresp s sofar) =
   sofar @ snd (fetchCustomers fresp (s\<lparr>formData := emptyForm, editingCustomer := None\<rparr>))"
  by (simp add: submitSucceeded_def Let_def split_beta)

lemma handleSubmit_succeeded:
  "error mresp = None \<Longrightarrow>
   handleSubmit mresp fresp s =
     submitSucceeded fresp (s\<lparr>loading := True\<rparr>)
       (case editingCustomer s of
          Some r \<Rightarrow> [StoreUpdate (formData s) (customer_id r),
                     ToastSuccess ''Customer updated successfully'']
        | None \<Rightarrow> [StoreInsert [formData s], ToastSuccess ''Customer added successfully''])"
  by (simp add: handleSubmit_def Let_def split: option.splits)

lemma handleDelete_succeeded:
  "error mresp = None \<Longrightarrow>
   handleDelete True mresp fresp i s =
     ((fst (fetchCustomers fresp (s\<lparr>loading := True\<rparr>)))\<lparr>loading := False\<rparr>,
      [Confirm ''Are you sure you want to delete this customer?'', StoreDelete i,
       ToastSuccess ''Customer deleted successfully'']
      @ snd (fetchCustomers fresp (s\<lparr>loading := True\<rparr>)))"
  by (simp add: handleDelete_def Let_def split_beta)

text \<open>
  C1, as the code has it: a create or modify submission that the store accepts leaves
  all four form fields empty and no record being edited, and fetches the list exactly
  once. A delete that the store accepts fetches the list exactly once too, but leaves
  the form fields and the record being edited as they were.
\<close>
theorem C1_successful_mutation:
  assumes "error mresp = None"
  shows "formData (fst (handleSubmit mresp fresp s)) = emptyForm \<and>
         editingCustomer (fst (handleSubmit mresp fresp s)) = None \<and>
         count_list (snd (handleSubmit mresp fresp s)) StoreSelect = 1 \<and>
         count_list (snd (handleDelete True mresp fresp i s)) StoreSelect = 1 \<and>
         formData (fst (handleDelete True mresp fresp i s)) = formData s \<and>
         editingCustomer (fst (handleDelete True mresp fresp i s)) = editingCustomer s"
proof -
  have submit: "formData (fst (handleSubmit mresp fresp s)) = emptyForm"
    "editingCustomer (fst (handleSubmit mresp fresp s)) = None"
    by (simp_all add: handleSubmit_succeeded [OF assms] submitSucceeded_state)
  have refetch: "count_list (snd (handleSubmit mresp fresp s)) StoreSelect = 1"
    by (simp add: handleSubmit_succeeded [OF assms] submitSucceeded_effects
        fetchCustomers_one_select split: option.splits)
  have delete: "count_list (snd (handleDelete True mresp fresp i s)) StoreSelect = 1"
    by (simp add: handleDelete_succeeded [OF assms] fetchCustomers_one_select)
  have kept: "formData (fst (handleDelete True mresp fresp i s)) = formData s"
    "editingCustomer (fst (handleDelete True mresp fresp i s)) = editingCustomer s"
    using fetchCustomers_frame [of fresp "s\<lparr>loading := True\<rparr>"]
    by (simp_all add: handleDelete_succeeded [OF assms])
  from submit refetch delete kept show ?thesis by simp
qed


theorem C1_successful_mutation_witness:
  "error ok = None \<and>
   formData (fst (handleSubmit ok (selectOk [bob]) (handleEdit alice loadedState))) = emptyForm \<and>
   editingCustomer (fst (handleSubmit ok (selectOk [bob]) (handleEdit alice loadedState))) = None \<and>
   count_list (snd (handleSubmit ok (selectOk [bob]) (handleEdit alice loadedState))) StoreSelect = 1 \<and>
   count_list (snd (handleDelete True ok (selectOk [bob]) ''id-1'' (handleEdit alice loadedState)))
     StoreSelect = 1 \<and>
   formData (fst (handleDelete True ok (selectOk [bob]) ''id-1'' (handleEdit alice loadedState))) =
     formData (handleEdit alice loadedState) \<and>
   editingCustomer (fst (handleDelete True ok (selectOk [bob]) ''id-1'' (handleEdit alice loadedState))) =
     editingCustomer (handleEdit alice loadedState)"
proof -
  have succeeded: "error ok = None"
    by (simp add: ok_def)
  show ?thesis
    by (rule conjI [OF succeeded]) (rule C1_successful_mutation [OF succeeded])
qed

text \<open>
  C1 as stated fails for delete: while Alice is being edited, deleting her row with the
  store's consent leaves the form filled and Alice still the record being edited.
\<close>
theorem C1_delete_keeps_form_counterexample:
  "error ok = None \<and>
   editingCustomer (fst (handleDelete True ok (selectOk [bob]) ''id-1'' (handleEdit alice loadedState)))
     = Some alice \<and>
   \<not> (formData (fst (handleDelete True ok (selectOk [bob]) ''id-1'' (handleEdit alice loadedState)))
        = emptyForm \<and>
      editingCustomer (fst (handleDelete True ok (selectOk [bob]) ''id-1'' (handleEdit alice loadedState)))
        = None \<and>
      count_list (snd (handleDelete True ok (selectOk [bob]) ''id-1'' (handleEdit alice loadedState)))
        StoreSelect = 1)"
  by (simp add: handleDelete_def fetchCustomers_def handleEdit_def ok_def selectOk_def Let_def)

text \<open>
  C4: the only mutation a submission sends to the store is chosen by the mode. While a
  record \<open>r\<close> is being edited it is one update of the row with \<open>r\<close>'s id, carrying the
  current form fields; otherwise it is one insert of the current form fields. This holds
  whatever the store answers.
\<close>
theorem C4_submit_dispatch:
  "(editingCustomer s = Some r \<longrightarrow>
      filter isMutation (snd (handleSubmit mresp fresp s)) =
        [StoreUpdate (formData s) (customer_id r)]) \<and>
   (editingCustomer s = None \<longrightarrow>
      filter isMutation (snd (handleSubmit mresp fresp s)) = [StoreInsert [formData s]])"
  by (simp add: handleSubmit_def submitFailed_def submitSucceeded_effects
      fetchCustomers_no_mutation Let_def split: option.splits)

theorem C4_submit_dispatch_witness:
  "editingCustomer (handleEdit alice loadedState) = Some alice \<and>
   filter isMutation (snd (handleSubmit ok (selectOk [alice, bob]) (handleEdit alice loadedState))) =
     [StoreUpdate (formData (handleEdit alice loadedState)) (customer_id alice)] \<and>
   editingCustomer loadedState = None \<and>
   filter isMutation (snd (handleSubmit failed selectFailed loadedState)) =
     [StoreInsert [formData loadedState]]"
proof -
  have editing: "editingCustomer (handleEdit alice loadedState) = Some alice"
    by (simp add: handleEdit_def)
  have idle: "editingCustomer loadedState = None"
    by (simp add: loadedState_def)
  have modify:
    "filter isMutation (snd (handleSubmit ok (selectOk [alice, bob]) (handleEdit alice loadedState))) =
       [StoreUpdate (formData (handleEdit alice loadedState)) (customer_id alice)]"
    using C4_submit_dispatch [of "handleEdit alice loadedState" alice ok "selectOk [alice, bob]"]
      editing by blast
  have create:
    "filter isMutation (snd (handleSubmit failed selectFailed loadedState)) =
       [StoreInsert [formData loadedState]]"
    using C4_submit_dispatch [of loadedState alice failed selectFailed] idle by blast
  show ?thesis
    by (intro conjI) (rule editing modify idle create)+
qed

text \<open>
  C5: an edit request for a record \<open>r\<close> makes \<open>r\<close> the record being edited and sets
  the four form fields to \<open>r\<close>'s name, shirt, pants and phone; the rest of the state
  stays.
\<close>
theorem C5_edit_request:
  "editingCustomer (handleEdit r s) = Some r \<and>
   name (formData (handleEdit r s)) = name r \<and>
   shirt (formData (handleEdit r s)) = shirt r \<and>
   pants (formData (handleEdit r s)) = pants r \<and>
   phone (formData (handleEdit r s)) = phone r \<and>
   customers (handleEdit r s) = customers s \<and>
   filteredCustomers (handleEdit r s) = filteredCustomers s \<and>
   loading (handleEdit r s) = loading s \<and>
   searchQuery (handleEdit r s) = searchQuery s"
  by (simp add: handleEdit_def)

text \<open>
  C6: when the user declines the prompt, a delete request leaves the whole state as it
  was, sends nothing to the store and shows no toast.
\<close>
theorem C6_declined_delete:
  "fst (handleDelete False mresp fresp i s) = s \<and>
   filter isStoreCall (snd (handleDelete False mresp fresp i s)) = [] \<and>
   filter isToast (snd (handleDelete False mresp fresp i s)) = []"
  by (simp add: handleDelete_def)

text \<open>
  C7: when no record is being edited and the store rejects the insert, the customer
  list, the filtered view and the form fields are what they were, exactly one toast is
  shown, the one for a failed create, and the insert is the only request sent to the
  store.
\<close>
theorem C7_failed_create:
  assumes "editingCustomer s = None" and "error mresp = Some e"
  shows "customers (fst (handleSubmit mresp fresp s)) = customers s \<and>
         filteredCustomers (fst (handleSubmit mresp fresp s)) = filteredCustomers s \<and>
         formData (fst (handleSubmit mresp fresp s)) = formData s \<and>
         editingCustomer (fst (handleSubmit mresp fresp s)) = None \<and>
         filter isToast (snd (handleSubmit mresp fresp s)) =
           [ToastError ''Error adding customer''] \<and>
         filter isStoreCall (snd (handleSubmit mresp fresp s)) = [StoreInsert [formData s]]"
  using assms by (simp add: handleSubmit_def submitFailed_def)

theorem C7_failed_create_witness:
  "editingCustomer loadedState = None \<and> error failed = Some (StoreError ''network'') \<and>
   customers (fst (handleSubmit failed (selectOk []) loadedState)) = customers loadedState \<and>
   filteredCustomers (fst (handleSubmit failed (selectOk []) loadedState)) =
     filteredCustomers loadedState \<and>
   formData (fst (handleSubmit failed (selectOk []) loadedState)) = formData loadedState \<and>
   editingCustomer (fst (handleSubmit failed (selectOk []) loadedState)) = None \<and>
   filter isToast (snd (handleSubmit failed (selectOk []) loadedState)) =
     [ToastError ''Error adding customer''] \<and>
   filter isStoreCall (snd (handleSubmit failed (selectOk []) loadedState)) =
     [StoreInsert [formData loadedState]]"
proof -
  have idle: "editingCustomer loadedState = None"
    by (simp add: loadedState_def)
  have fails: "error failed = Some (StoreError ''network'')"
    by (simp add: failed_def)
  show ?thesis
    by (rule conjI [OF idle], rule conjI [OF fails])
      (rule C7_failed_create [OF idle fails])
qed

text \<open>
  C8: a fetch that the store fails shows exactly one toast, the one for a failed fetch,
  leaves the customer list and the filtered view as they were, and clears the loading
  flag.
\<close>
theorem C8_failed_fetch:
  assumes "error fresp = Some e"
  shows "filter isToast (snd (fetchCustomers fresp s)) =
           [ToastError ''Error fetching customers''] \<and>
         customers (fst (fetchCustomers fresp s)) = customers s \<and>
         filteredCustomers (fst (fetchCustomers fresp s)) = filteredCustomers s \<and>
         loading (fst (fetchCustomers fresp s)) = False"
  by (simp add: fetchCustomers_failed [OF assms])

theorem C8_failed_fetch_witness:
  "error selectFailed = Some (StoreError ''network'') \<and>
   filter isToast (snd (fetchCustomers selectFailed (loadedState\<lparr>loading := True\<rparr>))) =
     [ToastError ''Error fetching customers''] \<and>
   customers (fst (fetchCustomers selectFailed (loadedState\<lparr>loading := True\<rparr>))) =
     customers (loadedState\<lparr>loading := True\<rparr>) \<and>
   filteredCustomers (fst (fetchCustomers selectFailed (loadedState\<lparr>loading := True\<rparr>))) =
     filteredCustomers (loadedState\<lparr>loading := True\<rparr>) \<and>
   loading (fst (fetchCustomers selectFailed (loadedState\<lparr>loading := True\<rparr>))) = False"
proof -
  have fails: "error selectFailed = Some (StoreError ''network'')"
    by (simp add: selectFailed_def)
  show ?thesis
    by (rule conjI [OF fails]) (rule C8_failed_fetch [OF fails])
qed

text \<open>
  C9: a confirmed delete that the store accepts leaves the form fields and the record
  being edited unchanged, whichever row was deleted.
\<close>
theorem C9_delete_keeps_form:
  assumes "error mresp = None"
  shows "formData (fst (handleDelete True mresp fresp i s)) = formData s \<and>
         editingCustomer (fst (handleDelete True mresp fresp i s)) = editingCustomer s"
  using fetchCustomers_frame [of fresp "s\<lparr>loading := True\<rparr>"]
  by (simp add: handleDelete_succeeded [OF assms])

theorem C9_delete_keeps_form_witness:
  "error ok = None \<and>
   editingCustomer (handleEdit alice loadedState) = Some alice \<and>
   formData (fst (handleDelete True ok (selectOk [bob]) (customer_id alice)
                    (handleEdit alice loadedState))) =
     formData (handleEdit alice loadedState) \<and>
   editingCustomer (fst (handleDelete True ok (selectOk [bob]) (customer_id alice)
                           (handleEdit alice loadedState))) =
     editingCustomer (handleEdit alice loadedState)"
proof -
  have succeeded: "error ok = None"
    by (simp add: ok_def)
  have editing: "editingCustomer (handleEdit alice loadedState) = Some alice"
    by (simp add: handleEdit_def)
  show ?thesis
    by (rule conjI [OF succeeded], rule conjI [OF editing])
      (rule C9_delete_keeps_form [OF succeeded])
qed

end
